theory Spec2Isabelle
  imports Complex_Main "HOL-Library.Word"
begin

chapter \<open>The model of the program\<close>

section \<open>Numbers and bytes of the host language\<close>

text \<open>
  The content script (\<^verbatim>\<open>imageProcessor.document_start.ts\<close>) computes with the host
  language's \<^verbatim>\<open>number\<close> type. A number is modelled as either \<^verbatim>\<open>NaN\<close> or a finite
  value in exact arithmetic: \<^verbatim>\<open>NaN\<close> is kept because \<^verbatim>\<open>parseInt\<close> and \<^verbatim>\<open>Number\<close>
  produce it from text; rounding of binary floating point and the infinities are not
  modelled. Every arithmetic operator and \<^verbatim>\<open>Math.min\<close>, \<^verbatim>\<open>Math.max\<close>,
  \<^verbatim>\<open>Math.floor\<close>, \<^verbatim>\<open>Math.round\<close> return \<^verbatim>\<open>NaN\<close> as soon as one operand is
  \<^verbatim>\<open>NaN\<close>.
\<close>

datatype jsnum = NaN | Num real

type_synonym byte = "8 word"

fun jsadd :: "jsnum \<Rightarrow> jsnum \<Rightarrow> jsnum" where
  "jsadd (Num a) (Num b) = Num (a + b)"
| "jsadd _ _ = NaN"

fun jssub :: "jsnum \<Rightarrow> jsnum \<Rightarrow> jsnum" where
  "jssub (Num a) (Num b) = Num (a - b)"
| "jssub _ _ = NaN"

fun jsmul :: "jsnum \<Rightarrow> jsnum \<Rightarrow> jsnum" where
  "jsmul (Num a) (Num b) = Num (a * b)"
| "jsmul _ _ = NaN"

fun jsmin :: "jsnum \<Rightarrow> jsnum \<Rightarrow> jsnum" where
  "jsmin (Num a) (Num b) = Num (min a b)"
| "jsmin _ _ = NaN"

fun jsmax :: "jsnum \<Rightarrow> jsnum \<Rightarrow> jsnum" where
  "jsmax (Num a) (Num b) = Num (max a b)"
| "jsmax _ _ = NaN"

fun jsfloor :: "jsnum \<Rightarrow> jsnum" where
  "jsfloor (Num a) = Num (of_int \<lfloor>a\<rfloor>)"
| "jsfloor NaN = NaN"

text \<open>\<^verbatim>\<open>Math.round\<close> rounds to the nearest integer, a tie going up.\<close>

fun jsround :: "jsnum \<Rightarrow> jsnum" where
  "jsround (Num a) = Num (of_int \<lfloor>a + 1 / 2\<rfloor>)"
| "jsround NaN = NaN"

text \<open>
  A store into a \<^verbatim>\<open>Uint8ClampedArray\<close> (the \<^verbatim>\<open>data\<close> of an \<^verbatim>\<open>ImageData\<close>):
  \<^verbatim>\<open>NaN\<close> is stored as 0, any other value is clamped to 0..255 and rounded to the
  nearest integer, a tie going to the even one.
\<close>

definition toUint8Clamp :: "jsnum \<Rightarrow> byte" where
  "toUint8Clamp v =
     (case v of
        NaN \<Rightarrow> 0
      | Num x \<Rightarrow>
          if x \<le> 0 then 0
          else if 255 \<le> x then 255
          else (let f = \<lfloor>x\<rfloor>; d = x - of_int f
                in of_int (if d < 1 / 2 then f
                           else if 1 / 2 < d then f + 1
                           else if even f then f else f + 1)))"

text \<open>Reading a byte of the pixel buffer gives a number between 0 and 255.\<close>

definition byteNum :: "byte \<Rightarrow> jsnum" where
  "byteNum d = Num (real (unat d))"

text \<open>\<^verbatim>\<open>data[i] / 255\<close>\<close>

definition div255 :: "byte \<Rightarrow> jsnum" where
  "div255 d = (case byteNum d of Num a \<Rightarrow> Num (a / 255) | NaN \<Rightarrow> NaN)"

datatype error = TypeError | SyntaxError

section \<open>The colour transform \<^verbatim>\<open>applyCubeLUT\<close>\<close>

text \<open>
  A LUT is \<^verbatim>\<open>{ size: number, data: number[][] }\<close>. The parser pushes a row only when
  it has exactly three values, so a row is a triple.
\<close>

type_synonym row = "jsnum \<times> jsnum \<times> jsnum"

record lut =
  lut_size :: jsnum
  lut_data :: "row list"

text \<open>
  \<^verbatim>\<open>lut.data[idx]\<close>: an array read at a number that is not an index of the array
  (out of range, fractional or \<^verbatim>\<open>NaN\<close>) gives \<^verbatim>\<open>undefined\<close>, here \<open>None\<close>.
\<close>

definition arrayGet :: "'a list \<Rightarrow> jsnum \<Rightarrow> 'a option" where
  "arrayGet xs idx =
     (case idx of
        NaN \<Rightarrow> None
      | Num v \<Rightarrow>
          if v = of_int \<lfloor>v\<rfloor> \<and> 0 \<le> v \<and> v < real (length xs)
          then Some (xs ! nat \<lfloor>v\<rfloor>) else None)"

text \<open>
  \<^verbatim>\<open>Math.min(size - 1, Math.max(0, Math.floor(c * (size - 1))))\<close>, written three
  times in the source for the red, green and blue channel.
\<close>

definition gridCoord :: "jsnum \<Rightarrow> jsnum \<Rightarrow> jsnum" where
  "gridCoord sz c =
     jsmin (jssub sz (Num 1)) (jsmax (Num 0) (jsfloor (jsmul c (jssub sz (Num 1)))))"

text \<open>The index of the row read for one pixel, after both clamps.\<close>

definition lutIndex :: "lut \<Rightarrow> byte \<Rightarrow> byte \<Rightarrow> byte \<Rightarrow> jsnum" where
  "lutIndex l r0 g0 b0 =
     (let maxLutIndex = Num (real (length (lut_data l)) - 1);
          r = div255 r0; g = div255 g0; b = div255 b0;
          sz = lut_size l;
          x = gridCoord sz r;
          y = gridCoord sz g;
          z = gridCoord sz b;
          idx = jsadd (jsadd z (jsmul y sz)) (jsmul (jsmul x sz) sz)
      in jsmin maxLutIndex (jsmax (Num 0) idx))"

text \<open>\<^verbatim>\<open>Math.round(v * 255)\<close> stored into the result buffer.\<close>

definition scale8 :: "jsnum \<Rightarrow> byte" where
  "scale8 v = toUint8Clamp (jsround (jsmul v (Num 255)))"

text \<open>
  The loop \<^verbatim>\<open>for (let i = 0; i < data.length; i += 4)\<close> over the flat RGBA buffer.
  \<^verbatim>\<open>lut.data[idx][0]\<close> on a missing row throws a \<^verbatim>\<open>TypeError\<close>, which ends the
  call. The buffer of an \<^verbatim>\<open>ImageData\<close> has \<open>4 * width * height\<close> bytes, so no
  incomplete pixel is left at the end.
\<close>

fun lutLoop :: "lut \<Rightarrow> byte list \<Rightarrow> error + byte list" where
  "lutLoop l (r0 # g0 # b0 # a0 # rest) =
     (case arrayGet (lut_data l) (lutIndex l r0 g0 b0) of
        None \<Rightarrow> Inl TypeError
      | Some (e0, e1, e2) \<Rightarrow>
          (case lutLoop l rest of
             Inl e \<Rightarrow> Inl e
           | Inr out \<Rightarrow> Inr (scale8 e0 # scale8 e1 # scale8 e2 # a0 # out)))"
| "lutLoop l _ = Inr []"

definition applyCubeLUT :: "byte list \<Rightarrow> lut \<Rightarrow> error + byte list" where
  "applyCubeLUT imageData l = lutLoop l imageData"

subsection \<open>The transform in the words of its description\<close>

text \<open>
  The description of the transform, for a table of size \<open>N\<close>: a channel is normalised
  to the unit interval, scaled by \<open>N - 1\<close>, floored to a grid coordinate and clamped to
  \<open>0 .. N - 1\<close>; the three coordinates are flattened with blue varying fastest, green
  next and red slowest.
\<close>

definition specCoord :: "nat \<Rightarrow> byte \<Rightarrow> nat" where
  "specCoord N c =
     nat (min (int N - 1) (max 0 \<lfloor>real (unat c) / 255 * (real N - 1)\<rfloor>))"

definition specFlatIndex :: "nat \<Rightarrow> byte \<Rightarrow> byte \<Rightarrow> byte \<Rightarrow> nat" where
  "specFlatIndex N r g b = specCoord N b + specCoord N g * N + specCoord N r * N * N"

text \<open>The grid coordinate computed by the code when the size is the integer \<open>n\<close>.\<close>

definition axisInt :: "int \<Rightarrow> byte \<Rightarrow> int" where
  "axisInt n c = min (n - 1) (max 0 \<lfloor>real (unat c) / 255 * real_of_int (n - 1)\<rfloor>)"



definition nanLut :: lut where
  "nanLut = \<lparr>lut_size = NaN, lut_data = [(Num 0, Num 0, Num 0)]\<rparr>"


subsection \<open>The older variant of the transform\<close>

text \<open>
  The earlier copies of the content script compute the grid coordinates without the
  clamps and test the flat index before the read
  (\<^verbatim>\<open>if (idx >= 0 && idx < lut.data.length)\<close>); a pixel whose index fails the test
  keeps its three colour bytes. A comparison with \<^verbatim>\<open>NaN\<close> is false.
\<close>

definition flatIndexUnclamped :: "lut \<Rightarrow> byte \<Rightarrow> byte \<Rightarrow> byte \<Rightarrow> jsnum" where
  "flatIndexUnclamped l r0 g0 b0 =
     (let sz = lut_size l;
          x = jsfloor (jsmul (div255 r0) (jssub sz (Num 1)));
          y = jsfloor (jsmul (div255 g0) (jssub sz (Num 1)));
          z = jsfloor (jsmul (div255 b0) (jssub sz (Num 1)))
      in jsadd (jsadd z (jsmul y sz)) (jsmul (jsmul x sz) sz))"

definition indexInRange :: "jsnum \<Rightarrow> nat \<Rightarrow> bool" where
  "indexInRange idx len = (case idx of NaN \<Rightarrow> False | Num v \<Rightarrow> 0 \<le> v \<and> v < real len)"

fun lutLoopUnclamped :: "lut \<Rightarrow> byte list \<Rightarrow> error + byte list" where
  "lutLoopUnclamped l (r0 # g0 # b0 # a0 # rest) =
     (let idx = flatIndexUnclamped l r0 g0 b0 in
      if indexInRange idx (length (lut_data l))
      then (case arrayGet (lut_data l) idx of
              None \<Rightarrow> Inl TypeError
            | Some (e0, e1, e2) \<Rightarrow>
                (case lutLoopUnclamped l rest of
                   Inl e \<Rightarrow> Inl e
                 | Inr out \<Rightarrow> Inr (scale8 e0 # scale8 e1 # scale8 e2 # a0 # out)))
      else (case lutLoopUnclamped l rest of
              Inl e \<Rightarrow> Inl e
            | Inr out \<Rightarrow> Inr (r0 # g0 # b0 # a0 # out)))"
| "lutLoopUnclamped l _ = Inr []"

section \<open>The post-effects \<^verbatim>\<open>applyGrain\<close> and \<^verbatim>\<open>applyVignette\<close>\<close>

text \<open>
  Both effects work on the bitmap of a canvas, a flat buffer of RGBA bytes. The values of
  \<^verbatim>\<open>Math.random()\<close> are an input: \<open>rnd k\<close> is the value drawn for pixel \<open>k\<close>.
\<close>

record canvas =
  cv_width :: nat
  cv_height :: nat
  cv_data :: "byte list"

text \<open>
  The loop of \<^verbatim>\<open>applyGrain\<close>: one noise value a pixel, added to the three colour
  channels, each clamped by \<^verbatim>\<open>Math.min(255, Math.max(0, ...))\<close> and stored; the alpha
  byte is not written.
\<close>

fun grainLoop :: "(nat \<Rightarrow> real) \<Rightarrow> jsnum \<Rightarrow> nat \<Rightarrow> byte list \<Rightarrow> byte list" where
  "grainLoop rnd intensity k (r # g # b # a # rest) =
     (let noise = jsmul (jsmul (jssub (Num (rnd k)) (Num (1 / 2))) intensity) (Num 255);
          store = (\<lambda>c. toUint8Clamp (jsmin (Num 255) (jsmax (Num 0) (jsadd (byteNum c) noise))))
      in store r # store g # store b # a # grainLoop rnd intensity (Suc k) rest)"
| "grainLoop rnd intensity k rest = rest"

definition applyGrain :: "(nat \<Rightarrow> real) \<Rightarrow> canvas \<Rightarrow> jsnum \<Rightarrow> canvas" where
  "applyGrain rnd cv intensity =
     (if intensity = Num 0 then cv
      else cv\<lparr>cv_data := grainLoop rnd intensity 0 (cv_data cv)\<rparr>)"

subsection \<open>The canvas operations behind \<^verbatim>\<open>applyVignette\<close>\<close>

text \<open>
  \<^verbatim>\<open>applyVignette\<close> only calls the 2D context: a radial gradient from the colour
  \<^verbatim>\<open>rgba(0, 0, 0, 0)\<close> at radius \<open>0.7 * radius\<close> to \<^verbatim>\<open>rgba(0, 0, 0, amount)\<close> at
  \<open>radius\<close>, and one \<^verbatim>\<open>fillRect\<close> over the whole canvas under the composite
  operation \<^verbatim>\<open>overlay\<close>. What these calls do is the browser's part; it is modelled
  after the Canvas 2D and the Compositing and Blending specifications, in exact
  arithmetic, on the bitmap as the canvas stores it (colours premultiplied by alpha).

  The alpha of the colour \<^verbatim>\<open>rgba(0, 0, 0, amount)\<close>: a number is clamped to the unit
  interval; the text \<^verbatim>\<open>NaN\<close> is no colour, and \<^verbatim>\<open>addColorStop\<close> throws.
\<close>

definition cssAlpha :: "jsnum \<Rightarrow> real option" where
  "cssAlpha amount = (case amount of NaN \<Rightarrow> None | Num a \<Rightarrow> Some (max 0 (min 1 a)))"

text \<open>
  The alpha of the gradient at pixel \<open>p\<close> (row by row, sampled at the centre of the
  pixel): 0 up to the inner circle, the alpha of the second stop from the outer circle
  on, linear in the distance between them. Both stops are black. Two equal circles paint
  nothing.
\<close>

definition vignetteAlpha :: "nat \<Rightarrow> nat \<Rightarrow> real \<Rightarrow> nat \<Rightarrow> real" where
  "vignetteAlpha w h stopAlpha p =
     (let centerX = real w / 2;
          centerY = real h / 2;
          radius = max centerX centerY * (8 / 10);
          r0 = radius * (7 / 10);
          x = real (p mod w) + 1 / 2;
          y = real (p div w) + 1 / 2;
          d = sqrt ((x - centerX) ^ 2 + (y - centerY) ^ 2)
      in if radius \<le> r0 then 0
         else stopAlpha * max 0 (min 1 ((d - r0) / (radius - r0))))"

text \<open>The blend mode \<^verbatim>\<open>overlay\<close>: hard light with the two layers swapped.\<close>

definition multiplyBlend :: "real \<Rightarrow> real \<Rightarrow> real" where
  "multiplyBlend cb cs = cb * cs"

definition screenBlend :: "real \<Rightarrow> real \<Rightarrow> real" where
  "screenBlend cb cs = cb + cs - cb * cs"

definition hardLightBlend :: "real \<Rightarrow> real \<Rightarrow> real" where
  "hardLightBlend cb cs =
     (if cs \<le> 1 / 2 then multiplyBlend cb (2 * cs) else screenBlend cb (2 * cs - 1))"

definition overlayBlend :: "real \<Rightarrow> real \<Rightarrow> real" where
  "overlayBlend cb cs = hardLightBlend cs cb"

text \<open>
  One channel of a pixel of the bitmap under a black source of alpha \<open>\<alpha>s\<close>: with
  premultiplied values, \<open>co = \<alpha>s * \<alpha>b * B(Cb, Cs) + cs * (1 - \<alpha>b) + cb * (1 - \<alpha>s)\<close>,
  and for the alpha channel \<open>\<alpha>o = \<alpha>s + \<alpha>b * (1 - \<alpha>s)\<close>.
\<close>

definition compositeChannel :: "real \<Rightarrow> byte \<Rightarrow> byte \<Rightarrow> byte" where
  "compositeChannel \<alpha>s a c =
     (let \<alpha>b = real (unat a) / 255;
          cb = real (unat c) / 255;
          Cb = (if \<alpha>b = 0 then 0 else cb / \<alpha>b);
          Cs = 0;
          cs = \<alpha>s * Cs;
          co = \<alpha>s * \<alpha>b * overlayBlend Cb Cs + cs * (1 - \<alpha>b) + cb * (1 - \<alpha>s)
      in toUint8Clamp (Num (255 * co)))"

definition compositeAlpha :: "real \<Rightarrow> byte \<Rightarrow> byte" where
  "compositeAlpha \<alpha>s a =
     (let \<alpha>b = real (unat a) / 255 in toUint8Clamp (Num (255 * (\<alpha>s + \<alpha>b * (1 - \<alpha>s)))))"

fun fillOverlay :: "(nat \<Rightarrow> real) \<Rightarrow> nat \<Rightarrow> byte list \<Rightarrow> byte list" where
  "fillOverlay alphaAt p (r # g # b # a # rest) =
     compositeChannel (alphaAt p) a r # compositeChannel (alphaAt p) a g
       # compositeChannel (alphaAt p) a b # compositeAlpha (alphaAt p) a
       # fillOverlay alphaAt (Suc p) rest"
| "fillOverlay alphaAt p rest = rest"

definition applyVignette :: "canvas \<Rightarrow> jsnum \<Rightarrow> error + canvas" where
  "applyVignette cv amount =
     (case cssAlpha amount of
        None \<Rightarrow> Inl SyntaxError
      | Some stopAlpha \<Rightarrow>
          Inr (cv\<lparr>cv_data :=
                   fillOverlay (vignetteAlpha (cv_width cv) (cv_height cv) stopAlpha) 0
                     (cv_data cv)\<rparr>))"

section \<open>The LUT parser \<^verbatim>\<open>parseCubeLUT\<close>\<close>

text \<open>
  Text is a list of characters. A character stands for one code unit below 256; the
  white space of the host language (what \<^verbatim>\<open>trim\<close> removes and \<^verbatim>\<open>\s\<close> matches) is,
  in that range, tab, line feed, vertical tab, form feed, carriage return, space and the
  no-break space.
\<close>

definition isWs :: "char \<Rightarrow> bool" where
  "isWs c = (c \<in> set [CHR 0x09, CHR 0x0A, CHR 0x0B, CHR 0x0C, CHR 0x0D, CHR 0x20, CHR 0xA0])"

definition isDigit :: "char \<Rightarrow> bool" where
  "isDigit c = (c \<in> set ''0123456789'')"

definition digitVal :: "char \<Rightarrow> nat" where
  "digitVal c = of_char c - 48"

definition digitsVal :: "string \<Rightarrow> nat" where
  "digitsVal ds = foldl (\<lambda>a c. 10 * a + digitVal c) 0 ds"

text \<open>\<^verbatim>\<open>text.split(sep)\<close> for a separator of one character: always at least one piece.\<close>

fun splitOn :: "char \<Rightarrow> string \<Rightarrow> string list" where
  "splitOn sep [] = [[]]"
| "splitOn sep (c # cs) =
     (if c = sep then [] # splitOn sep cs
      else (case splitOn sep cs of
              [] \<Rightarrow> [[c]]
            | piece # pieces \<Rightarrow> (c # piece) # pieces))"

definition trim :: "string \<Rightarrow> string" where
  "trim s = rev (dropWhile isWs (rev (dropWhile isWs s)))"

definition startsWith :: "string \<Rightarrow> string \<Rightarrow> bool" where
  "startsWith s p = (take (length p) s = p)"

text \<open>
  \<^verbatim>\<open>s.split(/\s+/)\<close>: the pieces between the maximal runs of white space. A run at the
  start or at the end of the text leaves an empty piece there. The first argument says
  whether the scan is inside a run, the second holds the current piece, reversed.
\<close>

fun splitWsFrom :: "bool \<Rightarrow> string \<Rightarrow> string \<Rightarrow> string list" where
  "splitWsFrom inRun cur [] = [rev cur]"
| "splitWsFrom inRun cur (c # cs) =
     (if isWs c then
        (if inRun then splitWsFrom True cur cs else rev cur # splitWsFrom True [] cs)
      else splitWsFrom False (c # cur) cs)"

definition splitWs :: "string \<Rightarrow> string list" where
  "splitWs s = splitWsFrom False [] s"

text \<open>\<^verbatim>\<open>xs[i]\<close> where a missing element is \<^verbatim>\<open>undefined\<close>.\<close>

definition elemAt :: "'a list \<Rightarrow> nat \<Rightarrow> 'a option" where
  "elemAt xs i = (if i < length xs then Some (xs ! i) else None)"

text \<open>
  \<^verbatim>\<open>parseInt(s, 10)\<close>: leading white space is skipped, one sign is read, then the
  longest run of decimal digits; without a digit the result is \<^verbatim>\<open>NaN\<close>. The argument
  \<^verbatim>\<open>undefined\<close> is read as the text "undefined", which has no digit.
\<close>

definition parseInt10 :: "string option \<Rightarrow> jsnum" where
  "parseInt10 arg =
     (case arg of
        None \<Rightarrow> NaN
      | Some s \<Rightarrow>
          (let s1 = dropWhile isWs s;
               neg = startsWith s1 ''-'';
               s2 = (if startsWith s1 ''-'' \<or> startsWith s1 ''+'' then tl s1 else s1);
               ds = takeWhile isDigit s2
           in if ds = [] then NaN
              else Num (if neg then - real (digitsVal ds) else real (digitsVal ds))))"

text \<open>
  The body of the loop over the lines. The conversion \<^verbatim>\<open>Number\<close> of a piece of text to
  a number is the parameter \<open>num\<close>.
\<close>

definition parseLine :: "(string \<Rightarrow> jsnum) \<Rightarrow> lut \<Rightarrow> string \<Rightarrow> lut" where
  "parseLine num l line =
     (let trimmed = trim line in
      if startsWith trimmed ''#'' \<or> trimmed = [] then l
      else if startsWith trimmed ''LUT_3D_SIZE''
      then l\<lparr>lut_size := parseInt10 (elemAt (splitWs trimmed) 1)\<rparr>
      else (let values = map num (splitWs trimmed) in
            if length values = 3
            then l\<lparr>lut_data := lut_data l @ [(values ! 0, values ! 1, values ! 2)]\<rparr>
            else l))"

definition parseText :: "(string \<Rightarrow> jsnum) \<Rightarrow> string \<Rightarrow> lut" where
  "parseText num text =
     foldl (parseLine num) \<lparr>lut_size = Num 0, lut_data = []\<rparr> (splitOn CHR 0x0A text)"

text \<open>
  \<^verbatim>\<open>lutCache\<close> maps a preset name to its parsed table. A cached table is returned
  without reading the text; otherwise the text is parsed and the table stored.
\<close>

type_synonym lutCache = "string \<rightharpoonup> lut"

definition parseCubeLUT ::
  "(string \<Rightarrow> jsnum) \<Rightarrow> lutCache \<Rightarrow> string \<Rightarrow> string \<Rightarrow> lut \<times> lutCache" where
  "parseCubeLUT num lutCache text presetName =
     (case lutCache presetName of
        Some cached \<Rightarrow> (cached, lutCache)
      | None \<Rightarrow>
          (let l = parseText num text in (l, lutCache(presetName \<mapsto> l))))"

subsection \<open>Well-formed CUBE text\<close>





definition trimmedLines :: "string \<Rightarrow> string list" where
  "trimmedLines text = map trim (splitOn CHR 0x0A text)"


text \<open>The lines that the parser turns into rows: three pieces, whatever they hold.\<close>

definition isDataLine :: "string \<Rightarrow> bool" where
  "isDataLine t =
     (\<not> startsWith t ''#'' \<and> t \<noteq> [] \<and> \<not> startsWith t ''LUT_3D_SIZE''
      \<and> length (splitWs t) = 3)"

text \<open>The row pushed for a data line.\<close>

definition rowOf :: "(string \<Rightarrow> jsnum) \<Rightarrow> string \<Rightarrow> row" where
  "rowOf num t = (let values = map num (splitWs t) in (values ! 0, values ! 1, values ! 2))"

text \<open>
  A conversion used for the concrete inputs below: it agrees with \<^verbatim>\<open>Number\<close> on
  unsigned decimal numerals and gives \<^verbatim>\<open>NaN\<close> elsewhere.
\<close>

definition numeralNumber :: "string \<Rightarrow> jsnum" where
  "numeralNumber s =
     (if s \<noteq> [] \<and> list_all isDigit s then Num (real (digitsVal s)) else NaN)"

definition cubeSize2OneRow :: string where
  "cubeSize2OneRow = ''LUT_3D_SIZE 2'' @ [CHR 0x0A] @ ''1 0 0''"

definition cubeSize3OneRow :: string where
  "cubeSize3OneRow = ''LUT_3D_SIZE 3'' @ [CHR 0x0A] @ ''1 0 0''"

definition cubeNoSizeValue :: string where
  "cubeNoSizeValue = ''LUT_3D_SIZE'' @ [CHR 0x0A] @ ''0 0 0''"


section \<open>Configuration and the result cache\<close>

text \<open>The fields of \<^verbatim>\<open>CONFIG\<close> that the functions modelled here read.\<close>

record config =
  MAX_CANVAS_DIMENSION :: nat
  BATCH_SIZE :: nat
  MAX_CONCURRENT :: nat
  MAX_CACHE_SIZE :: nat
  CACHE_CLEAN_THRESHOLD :: nat

definition CONFIG :: config where
  "CONFIG = \<lparr>MAX_CANVAS_DIMENSION = 3840, BATCH_SIZE = 6, MAX_CONCURRENT = 4,
              MAX_CACHE_SIZE = 300,
              CACHE_CLEAN_THRESHOLD = 250\<rparr>"

text \<open>
  \<^verbatim>\<open>processedUrlCache\<close> is a \<^verbatim>\<open>Set<string>\<close>, \<^verbatim>\<open>cacheManager.entries\<close> a
  \<^verbatim>\<open>Map<string, number>\<close> from a key to the time it was added. Both keep their
  elements in the order of first insertion, so they are lists: of keys without
  repetition, and of key and time pairs with one pair a key.
\<close>

record cacheState =
  processedUrlCache :: "string list"
  entries :: "(string \<times> nat) list"






definition cacheManager_has :: "cacheState \<Rightarrow> string \<Rightarrow> bool" where
  "cacheManager_has s key = (key \<in> set (processedUrlCache s))"





definition cacheManager_clear :: "cacheState \<Rightarrow> cacheState" where
  "cacheManager_clear s = \<lparr>processedUrlCache = [], entries = []\<rparr>"





section \<open>Surfaces: elements of the host page\<close>

text \<open>
  An element of the page, with what the pipeline reads and writes of it: whether it is
  an \<^verbatim>\<open>img\<close>; its \<^verbatim>\<open>src\<close> attribute; the URL of its inline background image;
  the entries \<^verbatim>\<open>filmGradeLocked\<close>, \<^verbatim>\<open>filmGradeAllowSet\<close>,
  \<^verbatim>\<open>filmGradeOriginalSrc\<close> and \<^verbatim>\<open>filmGradeProcessed\<close> of its \<^verbatim>\<open>dataset\<close>; the
  attributes \<^verbatim>\<open>data-film-grade-processing\<close> (the in-flight marker) and
  \<^verbatim>\<open>data-film-grade-robust-shadow\<close>; whether \<^verbatim>\<open>lockImageSrc\<close> has redefined its
  \<^verbatim>\<open>src\<close> property and its \<^verbatim>\<open>setAttribute\<close> method; the overlay wrapper in front
  of it, if any, with the mode of its shadow root; whether the element is hidden
  (opacity 0); the facts about its place in the page that choose the overlay strategy
  (inside a \<^verbatim>\<open>picture\<close>, role \<^verbatim>\<open>presentation\<close>, a Next.js image, rendered at
  all); and the first non-empty one of \<^verbatim>\<open>dataset.src\<close>, \<^verbatim>\<open>dataset.origSrc\<close> and
  \<^verbatim>\<open>dataset.actualSrc\<close>, where Medium keeps the source of an image; and the entry
  \<^verbatim>\<open>filmGradeOriginalStyles\<close> that \<^verbatim>\<open>processTextElement\<close> leaves.
\<close>

datatype shadowMode = OpenShadow | ClosedShadow

record element =
  isImage :: bool
  srcAttr :: "string option"
  backgroundImageUrl :: "string option"
  filmGradeLocked :: "string option"
  filmGradeAllowSet :: "string option"
  filmGradeOriginalSrc :: "string option"
  filmGradeProcessed :: "string option"
  processingAttr :: "string option"
  robustShadowAttr :: bool
  srcGuard :: bool
  setAttributeGuard :: bool
  robustWrapper :: "shadowMode option"
  hidden :: bool
  withinPicture :: bool
  presentationRole :: bool
  nextImage :: bool
  rendered :: bool
  mediumDataSrc :: "string option"
  filmGradeOriginalStyles :: "string option"

text \<open>
  What the page and the browser give: how a URL is resolved against the document (the
  \<^verbatim>\<open>src\<close> property reads the resolved URL), whether the host is Medium, whether the
  host is on the list of \<^verbatim>\<open>isProblematicSite\<close>, and whether
  \<^verbatim>\<open>HTMLImageElement.prototype\<close> has a descriptor for \<^verbatim>\<open>src\<close>.
\<close>

record env =
  resolveUrl :: "string \<Rightarrow> string"
  hostIsMedium :: bool
  problematicSite :: bool
  hasSrcDescriptor :: bool

definition srcProp :: "env \<Rightarrow> element \<Rightarrow> string" where
  "srcProp ev el =
     (case srcAttr el of
        None \<Rightarrow> []
      | Some v \<Rightarrow> if v = [] then [] else resolveUrl ev v)"

definition lowerChar :: "char \<Rightarrow> char" where
  "lowerChar c =
     (case map_of (zip ''ABCDEFGHIJKLMNOPQRSTUVWXYZ'' ''abcdefghijklmnopqrstuvwxyz'') c of
        Some l \<Rightarrow> l
      | None \<Rightarrow> c)"

definition toLowerCase :: "string \<Rightarrow> string" where
  "toLowerCase s = map lowerChar s"

subsection \<open>\<^verbatim>\<open>lockImageSrc\<close> and writes to a locked image\<close>

text \<open>
  The native \<^verbatim>\<open>setAttribute\<close>, for the attributes modelled here; another attribute
  leaves the modelled part of the element as it is.
\<close>

definition nativeSetAttribute :: "element \<Rightarrow> string \<Rightarrow> string \<Rightarrow> element" where
  "nativeSetAttribute el name v =
     (let n = toLowerCase name in
      if n = ''src'' then el\<lparr>srcAttr := Some v\<rparr>
      else if n = ''data-film-grade-allow-set'' then el\<lparr>filmGradeAllowSet := Some v\<rparr>
      else if n = ''data-film-grade-locked'' then el\<lparr>filmGradeLocked := Some v\<rparr>
      else if n = ''data-film-grade-original-src'' then el\<lparr>filmGradeOriginalSrc := Some v\<rparr>
      else if n = ''data-film-grade-processed'' then el\<lparr>filmGradeProcessed := Some v\<rparr>
      else if n = ''data-film-grade-processing'' then el\<lparr>processingAttr := Some v\<rparr>
      else if n = ''data-film-grade-robust-shadow'' then el\<lparr>robustShadowAttr := True\<rparr>
      else el)"

text \<open>
  The assignment \<^verbatim>\<open>el.src = value\<close>. On a locked image it runs the setter installed
  by \<^verbatim>\<open>lockImageSrc\<close>: the native setter is called when \<^verbatim>\<open>filmGradeAllowSet\<close> is
  \<^verbatim>\<open>'true'\<close>, and nothing is done otherwise (\<^verbatim>\<open>CONFIG.DEBUG\<close> is false, so the
  blocked branch has no statement to run).
\<close>

definition setSrc :: "element \<Rightarrow> string \<Rightarrow> element" where
  "setSrc el v =
     (if srcGuard el
      then (if filmGradeAllowSet el = Some ''true'' then el\<lparr>srcAttr := Some v\<rparr> else el)
      else el\<lparr>srcAttr := Some v\<rparr>)"

text \<open>
  The call \<^verbatim>\<open>el.setAttribute(name, value)\<close>. On a locked image it runs the replacement
  method: a write of \<^verbatim>\<open>src\<close> returns at once unless \<^verbatim>\<open>filmGradeAllowSet\<close> is
  \<^verbatim>\<open>'true'\<close>; everything else goes to the native method.
\<close>

definition setAttribute :: "element \<Rightarrow> string \<Rightarrow> string \<Rightarrow> element" where
  "setAttribute el name v =
     (if setAttributeGuard el \<and> toLowerCase name = ''src''
         \<and> filmGradeAllowSet el \<noteq> Some ''true''
      then el
      else nativeSetAttribute el name v)"




subsection \<open>\<^verbatim>\<open>revertElement\<close> and the disabling of the pipeline\<close>

text \<open>
  Step 1 removes the overlay wrapper when the previous sibling is a robust wrapper whose
  \<^verbatim>\<open>shadowRoot\<close> property is not null; that property is null for a shadow root of
  mode \<^verbatim>\<open>closed\<close>. Step 2 restores the source of an image through the guard, step 3
  the background image of another element. Step 4 (the \<^verbatim>\<open>source\<close> elements of a
  \<^verbatim>\<open>picture\<close>) touches other elements and is left out. Step 5 clears the markers.
\<close>

definition revertOverlay :: "element \<Rightarrow> element" where
  "revertOverlay el =
     (case robustWrapper el of
        Some OpenShadow \<Rightarrow> el\<lparr>robustWrapper := None, hidden := False, robustShadowAttr := False\<rparr>
      | _ \<Rightarrow> el)"

definition revertImageSrc :: "env \<Rightarrow> element \<Rightarrow> element" where
  "revertImageSrc ev el =
     (let e1 =
        (case filmGradeOriginalSrc el of
           None \<Rightarrow> el
         | Some originalSrc \<Rightarrow>
             if originalSrc \<noteq> [] \<and> srcProp ev el \<noteq> originalSrc
             then (setSrc (el\<lparr>filmGradeAllowSet := Some ''true''\<rparr>) originalSrc)
                    \<lparr>filmGradeAllowSet := Some ''false''\<rparr>
             else el)
      in e1\<lparr>filmGradeOriginalSrc := None, filmGradeProcessed := None,
             filmGradeLocked := None\<rparr>)"

definition dataImagePrefix :: string where
  "dataImagePrefix = ''data:image''"

definition revertBackground :: "element \<Rightarrow> element" where
  "revertBackground el =
     (case (filmGradeOriginalSrc el, backgroundImageUrl el) of
        (Some originalBg, Some bg) \<Rightarrow>
          if originalBg \<noteq> [] \<and> take (length dataImagePrefix) bg = dataImagePrefix
          then el\<lparr>backgroundImageUrl := Some originalBg, filmGradeOriginalSrc := None,
                   filmGradeProcessed := None\<rparr>
          else el
      | _ \<Rightarrow> el)"

definition revertElement :: "env \<Rightarrow> element \<Rightarrow> element" where
  "revertElement ev el =
     (let e1 = revertOverlay el;
          e2 = (if isImage e1 then revertImageSrc ev e1 else revertBackground e1)
      in e2\<lparr>processingAttr := None, robustShadowAttr := False\<rparr>)"


text \<open>
  The first branch of \<^verbatim>\<open>processAllMedia\<close>, taken when the pipeline is disabled or the
  preset is \<^verbatim>\<open>'none'\<close>: when disabled, every element that has the attribute
  \<^verbatim>\<open>data-film-grade-processed\<close> or \<^verbatim>\<open>data-film-grade-robust-shadow\<close> is reverted.
  \<open>None\<close> stands for the other branch, the scheduling of the candidates.
\<close>

definition selectedForRevert :: "element \<Rightarrow> bool" where
  "selectedForRevert el = (filmGradeProcessed el \<noteq> None \<or> robustShadowAttr el)"


text \<open>Elements and environments used as concrete inputs below.\<close>

definition plainEnv :: env where
  "plainEnv = \<lparr>resolveUrl = (\<lambda>u. u), hostIsMedium = False, problematicSite = False,
                hasSrcDescriptor = True\<rparr>"

definition freshImage :: "string \<Rightarrow> element" where
  "freshImage url =
     \<lparr>isImage = True, srcAttr = Some url, backgroundImageUrl = None,
      filmGradeLocked = None, filmGradeAllowSet = None, filmGradeOriginalSrc = None,
      filmGradeProcessed = None, processingAttr = None, robustShadowAttr = False,
      srcGuard = False, setAttributeGuard = False, robustWrapper = None, hidden = False,
      withinPicture = False, presentationRole = False, nextImage = False, rendered = True,
      mediumDataSrc = None, filmGradeOriginalStyles = None\<rparr>"



definition overlaidImage :: element where
  "overlaidImage = (freshImage ''https://host/b.png'')
     \<lparr>robustShadowAttr := True, robustWrapper := Some ClosedShadow, hidden := True\<rparr>"


section \<open>Processing one candidate\<close>

text \<open>
  The settings a call works with, and what the browser and the network answer while one
  candidate is processed: whether \<^verbatim>\<open>loadImageCrossOrigin\<close> resolves, the natural size
  of the loaded image, whether the canvas gives a 2D context, whether
  \<^verbatim>\<open>getImageData\<close> returns (it throws on a tainted canvas), whether the LUT step
  (fetch, parse, validity test, transform) goes through, and the data URL the canvas
  produces.
\<close>

record settings =
  preset :: string
  enableGrain :: bool
  enableVignette :: bool
  forceReprocess :: bool


definition cacheKey :: "string \<Rightarrow> settings \<Rightarrow> string" where
  "cacheKey originalSrc st =
     originalSrc @ ''-'' @ preset st @ ''-'' @ (if enableGrain st then ''1'' else ''0'')
       @ ''-'' @ (if enableVignette st then ''1'' else ''0'')"

text \<open>
  An \<^verbatim>\<open>async\<close> function runs up to its first \<^verbatim>\<open>await\<close> when it is called. The call
  has then either returned, or it is suspended: in the load of the source, with the
  source and the force flag it goes on with, or (a background element without a
  background image) in \<^verbatim>\<open>processTextElement\<close>. The timer that \<^verbatim>\<open>processImage\<close>
  sets to remove the marker after \<^verbatim>\<open>PROCESSING_TIMEOUT\<close> fires later and only
  removes the marker; it is no part of these steps.
\<close>

datatype start =
  Returned element
| AwaitLoad element string bool
| AwaitText element

fun startElement :: "start \<Rightarrow> element" where
  "startElement (Returned el) = el"
| "startElement (AwaitLoad el s f) = el"
| "startElement (AwaitText el) = el"

definition markProcessing :: "element \<Rightarrow> element" where
  "markProcessing el = setAttribute el ''data-film-grade-processing'' ''true''"

definition clearProcessing :: "element \<Rightarrow> element" where
  "clearProcessing el = el\<lparr>processingAttr := None\<rparr>"

definition processMediumImage_start :: "env \<Rightarrow> element \<Rightarrow> start" where
  "processMediumImage_start ev el =
     (if srcProp ev el = [] then Returned el
      else if processingAttr el = Some ''true'' then Returned el
      else (let el1 = markProcessing el;
                originalSrc =
                  (case srcAttr el1 of
                     None \<Rightarrow> None
                   | Some a \<Rightarrow>
                       if startsWith a ''data:''
                       then (case mediumDataSrc el1 of Some m \<Rightarrow> Some m | None \<Rightarrow> Some a)
                       else Some a)
            in case originalSrc of
                 None \<Rightarrow> Returned (clearProcessing el1)
               | Some s \<Rightarrow>
                   if s = [] then Returned (clearProcessing el1)
                   else AwaitLoad el1 s False))"

definition processImage_start :: "env \<Rightarrow> string list \<Rightarrow> settings \<Rightarrow> element \<Rightarrow> start" where
  "processImage_start ev cache st el =
     (if srcProp ev el = [] \<or> (filmGradeLocked el = Some ''true'' \<and> \<not> forceReprocess st)
      then Returned el
      else if hostIsMedium ev then processMediumImage_start ev el
      else if processingAttr el = Some ''true'' then Returned el
      else
        (let el1 = markProcessing el;
             useRecorded =
               (case (srcAttr el1, filmGradeOriginalSrc el1) of
                  (Some a, Some r) \<Rightarrow> startsWith a dataImagePrefix \<and> r \<noteq> []
                | _ \<Rightarrow> False);
             originalSrc = (if useRecorded then filmGradeOriginalSrc el1 else srcAttr el1);
             force = (forceReprocess st \<or> useRecorded)
         in case originalSrc of
              None \<Rightarrow> Returned (clearProcessing el1)
            | Some s \<Rightarrow>
                if s = [] then Returned (clearProcessing el1)
                else if \<not> force \<and> cacheKey s st \<in> set cache
                        \<and> filmGradeProcessed el1 = Some ''true''
                then Returned (clearProcessing el1)
                else AwaitLoad el1 s force))"

text \<open>
  \<^verbatim>\<open>processBackgroundImage\<close> up to its first \<^verbatim>\<open>await\<close>. An element without a
  background image (the inline style has none, or \<^verbatim>\<open>none\<close>) is a text element. The
  URL found in the computed style is taken to be the one of the inline style.
\<close>

definition processBackgroundImage_start ::
  "string list \<Rightarrow> settings \<Rightarrow> element \<Rightarrow> start" where
  "processBackgroundImage_start cache st el =
     (if processingAttr el = Some ''true'' then Returned el
      else (let el1 = markProcessing el in
            case backgroundImageUrl el1 of
              None \<Rightarrow> AwaitText el1
            | Some imageUrl \<Rightarrow>
                if imageUrl = [] \<or> imageUrl = ''none'' \<or> trim imageUrl = []
                then Returned (clearProcessing el1)
                else if \<not> forceReprocess st \<and> cacheKey imageUrl st \<in> set cache
                        \<and> filmGradeProcessed el1 = Some ''true''
                then Returned (clearProcessing el1)
                else AwaitLoad el1 imageUrl (forceReprocess st)))"

definition processElement_start ::
  "env \<Rightarrow> string list \<Rightarrow> settings \<Rightarrow> element \<Rightarrow> start" where
  "processElement_start ev cache st el =
     (if isImage el then processImage_start ev cache st el
      else processBackgroundImage_start cache st el)"

subsection \<open>The dispatch of a batch\<close>

text \<open>
  \<^verbatim>\<open>processAllMedia\<close> takes the visible candidates \<^verbatim>\<open>BATCH_SIZE\<close> at a time and calls
  \<^verbatim>\<open>processElement\<close> on each one of a batch inside \<^verbatim>\<open>batch.map\<close>, before it awaits any
  of them: when \<^verbatim>\<open>map\<close> returns, every call of the batch has run up to its first
  \<^verbatim>\<open>await\<close>.
\<close>

definition firstBatch :: "config \<Rightarrow> element list \<Rightarrow> element list" where
  "firstBatch cfg visibleElements = take (BATCH_SIZE cfg) visibleElements"

definition dispatchBatch ::
  "env \<Rightarrow> string list \<Rightarrow> settings \<Rightarrow> element list \<Rightarrow> start list" where
  "dispatchBatch ev cache st batch = map (processElement_start ev cache st) batch"

definition inFlight :: "element \<Rightarrow> bool" where
  "inFlight el = (processingAttr el = Some ''true'')"

definition inFlightCount :: "start list \<Rightarrow> nat" where
  "inFlightCount starts = length (filter (\<lambda>s. inFlight (startElement s)) starts)"

text \<open>A candidate that a call goes on to load: a fresh image on an ordinary host.\<close>

definition kodak :: settings where
  "kodak = \<lparr>preset = ''kodak'', enableGrain = False, enableVignette = False,
             forceReprocess = False\<rparr>"

definition sixImages :: "element list" where
  "sixImages = map freshImage
     [''https://host/1.png'', ''https://host/2.png'', ''https://host/3.png'',
      ''https://host/4.png'', ''https://host/5.png'', ''https://host/6.png'']"

subsection \<open>The rest of a call, after its first \<^verbatim>\<open>await\<close>\<close>






















chapter \<open>Properties\<close>

section \<open>The colour transform\<close>

lemma byte_bound: "unat (c :: byte) < 256"
  using unsigned_less [of c, where 'a = nat] by simp

lemma gridCoord_int:
  "gridCoord (Num (of_int n)) (div255 c) = Num (of_int (axisInt n c))"
  by (simp add: gridCoord_def div255_def byteNum_def axisInt_def)

lemma lutIndex_int:
  assumes "lut_size l = Num (of_int n)"
  shows "lutIndex l r g b =
    Num (of_int (min (int (length (lut_data l)) - 1)
       (max 0 (axisInt n b + axisInt n g * n + axisInt n r * n * n))))"
  using assms by (simp add: lutIndex_def gridCoord_int Let_def of_int_min of_int_max)

lemma arrayGet_int:
  "0 \<le> k \<Longrightarrow> k < int (length xs) \<Longrightarrow> arrayGet xs (Num (of_int k)) = Some (xs ! nat k)"
  by (simp add: arrayGet_def)

lemma lutIndex_row:
  assumes "lut_size l = Num (of_int n)" "lut_data l \<noteq> []"
  shows "\<exists>k. k < length (lut_data l) \<and>
    arrayGet (lut_data l) (lutIndex l r g b) = Some (lut_data l ! k)"
proof -
  let ?k = "min (int (length (lut_data l)) - 1)
       (max 0 (axisInt n b + axisInt n g * n + axisInt n r * n * n))"
  have len: "0 < length (lut_data l)" using assms(2) by simp
  have k: "0 \<le> ?k" "?k < int (length (lut_data l))" using len by auto
  have "arrayGet (lut_data l) (lutIndex l r g b) = Some (lut_data l ! nat ?k)"
    unfolding lutIndex_int [OF assms(1)] by (rule arrayGet_int [OF k])
  moreover have "nat ?k < length (lut_data l)" using k by linarith
  ultimately show ?thesis by blast
qed

text \<open>
  With an integer size (of any sign) and at least one row the second clamp keeps every
  read inside the table, so the loop ends without an error.
\<close>

lemma lutLoop_total_int:
  assumes "lut_size l = Num (of_int n)" "lut_data l \<noteq> []"
  shows "\<exists>out. lutLoop l buf = Inr out \<and> length out = 4 * (length buf div 4)"
  using assms
proof (induction l buf rule: lutLoop.induct)
  case (1 l r0 g0 b0 a0 rest)
  from lutIndex_row [OF "1.prems"(1) "1.prems"(2), of r0 g0 b0]
  obtain k where k: "arrayGet (lut_data l) (lutIndex l r0 g0 b0) = Some (lut_data l ! k)"
    by blast
  obtain e0 e1 e2 where e: "lut_data l ! k = (e0, e1, e2)"
    by (cases "lut_data l ! k") auto
  from "1.IH" [OF k [unfolded e] refl refl "1.prems"] obtain out where
    "lutLoop l rest = Inr out" "length out = 4 * (length rest div 4)" by blast
  then show ?case using k e by simp
qed simp_all

lemma applyCubeLUT_total_integer_size:
  assumes "lut_size l = Num (of_int n)" "lut_data l \<noteq> []"
  shows "\<exists>out. applyCubeLUT buf l = Inr out"
  using lutLoop_total_int [OF assms, of buf] by (auto simp: applyCubeLUT_def)

lemma axisInt_spec: "1 \<le> N \<Longrightarrow> axisInt (int N) c = int (specCoord N c)"
  by (simp add: axisInt_def specCoord_def)

lemma specCoord_le: "1 \<le> N \<Longrightarrow> specCoord N c \<le> N - 1"
  by (simp add: specCoord_def)

lemma specFlatIndex_less:
  assumes "1 \<le> N"
  shows "specFlatIndex N r g b < N ^ 3"
proof -
  obtain M where N: "N = Suc M" using assms by (cases N) auto
  have "specCoord N b \<le> M" "specCoord N g \<le> M" "specCoord N r \<le> M"
    using specCoord_le [OF assms] N by simp_all
  then have "specCoord N b + specCoord N g * N + specCoord N r * N * N
      \<le> M + M * N + M * N * N"
    by (intro add_mono mult_le_mono1)
  also have "\<dots> < N ^ 3" by (simp add: N power3_eq_cube algebra_simps)
  finally show ?thesis by (simp add: specFlatIndex_def)
qed

lemma lutIndex_spec:
  assumes "1 \<le> N" "lut_size l = Num (real N)" "lut_data l \<noteq> []"
  shows "arrayGet (lut_data l) (lutIndex l r g b) =
     Some (lut_data l ! min (length (lut_data l) - 1) (specFlatIndex N r g b))"
proof -
  have sz: "lut_size l = Num (of_int (int N))" using assms(2) by simp
  have len: "0 < length (lut_data l)" using assms(3) by simp
  have flat: "axisInt (int N) b + axisInt (int N) g * int N
      + axisInt (int N) r * int N * int N = int (specFlatIndex N r g b)"
    by (simp add: axisInt_spec [OF assms(1)] specFlatIndex_def)
  have k: "min (int (length (lut_data l)) - 1) (max 0 (int (specFlatIndex N r g b)))
      = int (min (length (lut_data l) - 1) (specFlatIndex N r g b))"
    using len by arith
  show ?thesis
    unfolding lutIndex_int [OF sz] flat k
    using len by (subst arrayGet_int) (auto simp: min_def)
qed







section \<open>The older variant of the colour transform\<close>

lemma floor_axis_bounds_nat:
  assumes "1 \<le> n" "k < 256"
  shows "min (n - 1) (max 0 \<lfloor>real k / 255 * real_of_int (n - 1)\<rfloor>)
     = \<lfloor>real k / 255 * real_of_int (n - 1)\<rfloor>"
proof -
  have u: "0 \<le> real k / 255" "real k / 255 \<le> 1" using assms(2) by simp_all
  have n: "0 \<le> real_of_int (n - 1)" using assms(1) by simp
  have lo: "0 \<le> \<lfloor>real k / 255 * real_of_int (n - 1)\<rfloor>"
    using u(1) n by simp
  have "real k / 255 * real_of_int (n - 1) \<le> 1 * real_of_int (n - 1)"
    by (rule mult_right_mono [OF u(2) n])
  then have "\<lfloor>real k / 255 * real_of_int (n - 1)\<rfloor> \<le> \<lfloor>1 * real_of_int (n - 1)\<rfloor>"
    by (rule floor_mono)
  also have "\<dots> = n - 1" by simp
  finally have hi: "\<lfloor>real k / 255 * real_of_int (n - 1)\<rfloor> \<le> n - 1" .
  show ?thesis using lo hi by simp
qed

lemma axisInt_unclamped:
  "1 \<le> n \<Longrightarrow> axisInt n c = \<lfloor>real (unat c) / 255 * real_of_int (n - 1)\<rfloor>"
  unfolding axisInt_def by (rule floor_axis_bounds_nat [OF _ byte_bound])

lemma flatIndexUnclamped_int:
  assumes "1 \<le> n" "lut_size l = Num (of_int n)"
  shows "flatIndexUnclamped l r g b
     = Num (of_int (axisInt n b + axisInt n g * n + axisInt n r * n * n))"
  using assms(2)
  unfolding axisInt_unclamped [OF assms(1)]
  by (simp add: flatIndexUnclamped_def Let_def div255_def byteNum_def)

lemma variants_agree_pixel:
  assumes "1 \<le> N" "lut_size l = Num (real N)" "N ^ 3 \<le> length (lut_data l)"
  shows "flatIndexUnclamped l r g b = lutIndex l r g b"
    and "indexInRange (flatIndexUnclamped l r g b) (length (lut_data l))"
proof -
  have sz: "lut_size l = Num (of_int (int N))" using assms(2) by simp
  have n: "1 \<le> int N" using assms(1) by simp
  have flat: "axisInt (int N) b + axisInt (int N) g * int N
      + axisInt (int N) r * int N * int N = int (specFlatIndex N r g b)"
    by (simp add: axisInt_spec [OF assms(1)] specFlatIndex_def)
  have lt: "specFlatIndex N r g b < length (lut_data l)"
    using specFlatIndex_less [OF assms(1), of r g b] assms(3) by linarith
  have u: "flatIndexUnclamped l r g b = Num (real (specFlatIndex N r g b))"
    unfolding flatIndexUnclamped_int [OF n sz] flat by simp
  have c: "lutIndex l r g b = Num (real (specFlatIndex N r g b))"
    unfolding lutIndex_int [OF sz] flat using lt by (simp add: min_def)
  show "flatIndexUnclamped l r g b = lutIndex l r g b" by (simp only: u c)
  show "indexInRange (flatIndexUnclamped l r g b) (length (lut_data l))"
    unfolding u using lt by (simp add: indexInRange_def)
qed

lemma variants_agree:
  assumes "1 \<le> N" "lut_size l = Num (real N)" "N ^ 3 \<le> length (lut_data l)"
  shows "lutLoopUnclamped l buf = lutLoop l buf"
  using assms
proof (induction l buf rule: lutLoopUnclamped.induct)
  case (1 l r0 g0 b0 a0 rest)
  note v = variants_agree_pixel [OF "1.prems", of r0 g0 b0]
  have ne: "lut_data l \<noteq> []"
  proof
    assume "lut_data l = []"
    then have "N ^ 3 = 0" using "1.prems"(3) by simp
    then show False using "1.prems"(1) by simp
  qed
  note row = lutIndex_spec [OF "1.prems"(1,2) ne, of r0 g0 b0]
  obtain e0 e1 e2 where e:
    "lut_data l ! min (length (lut_data l) - 1) (specFlatIndex N r0 g0 b0) = (e0, e1, e2)"
    by (metis prod_cases3)
  have get: "arrayGet (lut_data l) (flatIndexUnclamped l r0 g0 b0) = Some (e0, e1, e2)"
    unfolding v(1) row e ..
  have ih: "lutLoopUnclamped l rest = lutLoop l rest"
    by (rule "1.IH"(1) [OF refl v(2) get refl refl "1.prems"])
  show ?case
    using v(2) get ih row e by (simp add: Let_def)
qed simp_all

text \<open>
  On a table of size \<open>N \<ge> 1\<close> with at least \<open>N\<^sup>3\<close> rows the older variant of the
  transform and the current one give the same buffer.
\<close>

lemma applyCubeLUT_variants_agree:
  assumes "1 \<le> N" "lut_size l = Num (real N)" "N ^ 3 \<le> length (lut_data l)"
  shows "lutLoopUnclamped l buf = applyCubeLUT buf l"
  using variants_agree [OF assms] by (simp add: applyCubeLUT_def)

section \<open>The post-effects at zero strength\<close>

lemma toUint8Clamp_nat:
  assumes "n < 256"
  shows "toUint8Clamp (Num (real n)) = (of_nat n :: byte)"
proof -
  consider (z) "n = 0" | (m) "n = 255" | (mid) "0 < n" "n < 255"
    using assms by linarith
  then show ?thesis
  proof cases
    case z
    then show ?thesis by (simp add: toUint8Clamp_def)
  next
    case m
    then show ?thesis by (simp add: toUint8Clamp_def)
  next
    case mid
    then show ?thesis by (simp add: toUint8Clamp_def Let_def)
  qed
qed

lemma toUint8Clamp_byte: "toUint8Clamp (byteNum c) = c"
  unfolding byteNum_def toUint8Clamp_nat [OF byte_bound] by simp

lemma grain_clamp_zero:
  assumes "n < 256"
  shows "jsmin (Num 255) (jsmax (Num 0)
     (jsadd (Num (real n)) (jsmul (jsmul (jssub (Num u) (Num (1 / 2))) (Num 0)) (Num 255))))
     = Num (real n)"
  using assms by (simp add: min_def max_def)

lemma grain_store_zero:
  "toUint8Clamp (jsmin (Num 255) (jsmax (Num 0)
     (jsadd (byteNum c) (jsmul (jsmul (jssub (Num u) (Num (1 / 2))) (Num 0)) (Num 255))))) = c"
  unfolding byteNum_def grain_clamp_zero [OF byte_bound]
  using toUint8Clamp_byte [of c] by (simp only: byteNum_def)

lemma grainLoop_zero: "grainLoop rnd (Num 0) k buf = buf"
proof (induction rnd "Num 0" k buf rule: grainLoop.induct)
  case (1 rnd k r g b a rest)
  have "grainLoop rnd (Num 0) (Suc k) rest = rest" by (rule 1) (rule refl)+
  then show ?case by (simp only: grainLoop.simps Let_def grain_store_zero)
qed simp_all

lemma compositeChannel_zero: "compositeChannel 0 a c = c"
proof -
  have "compositeChannel 0 a c = toUint8Clamp (Num (255 * (real (unat c) / 255)))"
    by (simp add: compositeChannel_def Let_def)
  also have "\<dots> = toUint8Clamp (byteNum c)" by (simp add: byteNum_def)
  finally show ?thesis by (simp only: toUint8Clamp_byte)
qed

lemma compositeAlpha_zero: "compositeAlpha 0 a = a"
proof -
  have "compositeAlpha 0 a = toUint8Clamp (Num (255 * (real (unat a) / 255)))"
    by (simp add: compositeAlpha_def Let_def)
  also have "\<dots> = toUint8Clamp (byteNum a)" by (simp add: byteNum_def)
  finally show ?thesis by (simp only: toUint8Clamp_byte)
qed

lemma fillOverlay_zero: "fillOverlay (\<lambda>p. 0) k buf = buf"
  by (induction "\<lambda>p::nat. 0::real" k buf rule: fillOverlay.induct)
    (simp_all add: compositeChannel_zero compositeAlpha_zero)

lemma vignetteAlpha_zero: "vignetteAlpha w h 0 = (\<lambda>p. 0)"
  by (rule ext) (simp add: vignetteAlpha_def Let_def)

text \<open>
  Claim C9. For every canvas bitmap, the grain effect with intensity 0 leaves the bitmap
  as it is, byte for byte (the call returns at once; the loop itself, which older
  variants of the function run without that test, writes every byte back unchanged), and
  the vignette effect with amount 0 leaves the bitmap as it is, alpha included: both
  stops of the gradient are then transparent, and the fill composites a source of alpha 0.
\<close>

theorem effects_identity_at_zero:
  "applyGrain rnd cv (Num 0) = cv \<and>
   cv\<lparr>cv_data := grainLoop rnd (Num 0) 0 (cv_data cv)\<rparr> = cv \<and>
   applyVignette cv (Num 0) = Inr cv"
  by (simp add: applyGrain_def grainLoop_zero applyVignette_def cssAlpha_def vignetteAlpha_zero
      fillOverlay_zero)

section \<open>The LUT parser\<close>






















lemma foldl_parseLine_data:
  "lut_data (foldl (parseLine num) l ls) =
     lut_data l @ map (rowOf num) (filter isDataLine (map trim ls))"
proof (induction ls arbitrary: l)
  case Nil
  then show ?case by simp
next
  case (Cons line ls)
  have "lut_data (parseLine num l line) =
      lut_data l @ (if isDataLine (trim line) then [rowOf num (trim line)] else [])"
    by (simp add: parseLine_def isDataLine_def rowOf_def Let_def)
  then show ?case using Cons.IH [of "parseLine num l line"] by simp
qed

text \<open>
  Claim C3, amended. \<^verbatim>\<open>parseCubeLUT\<close> neither repairs nor rejects a table: for every
  text, parsed on a cache miss, the rows of the table are the data lines of the text
  (the lines that are no comment, not blank, no size directive and split into three
  pieces), one row a line and in their order, whatever size was declared. The result is
  always a table; the function has no error result.
\<close>

theorem parseCubeLUT_no_repair:
  assumes "lutCache presetName = None"
  shows "lut_data (fst (parseCubeLUT num lutCache text presetName))
     = map (rowOf num) (filter isDataLine (trimmedLines text))"
  using assms
  by (simp add: parseCubeLUT_def parseText_def foldl_parseLine_data trimmedLines_def Let_def)

lemma parseText_cubeSize2OneRow:
  "parseText numeralNumber cubeSize2OneRow
     = \<lparr>lut_size = Num 2, lut_data = [(Num 1, Num 0, Num 0)]\<rparr>"
  by (simp add: parseText_def cubeSize2OneRow_def parseLine_def trim_def startsWith_def
      splitWs_def isWs_def elemAt_def parseInt10_def isDigit_def digitsVal_def digitVal_def
      numeralNumber_def)

lemma parseText_cubeSize3OneRow:
  "parseText numeralNumber cubeSize3OneRow
     = \<lparr>lut_size = Num 3, lut_data = [(Num 1, Num 0, Num 0)]\<rparr>"
  by (simp add: parseText_def cubeSize3OneRow_def parseLine_def trim_def startsWith_def
      splitWs_def isWs_def elemAt_def parseInt10_def isDigit_def digitsVal_def digitVal_def
      numeralNumber_def)

lemma parseText_cubeNoSizeValue:
  "parseText numeralNumber cubeNoSizeValue = nanLut"
  by (simp add: parseText_def cubeNoSizeValue_def parseLine_def trim_def startsWith_def
      splitWs_def isWs_def elemAt_def parseInt10_def isDigit_def digitsVal_def digitVal_def
      numeralNumber_def nanLut_def)

text \<open>
  The theorem at a text that declares size 2 and has one row: the table has that one
  row.
\<close>

theorem parseCubeLUT_no_repair_witness:
  "lut_data (fst (parseCubeLUT numeralNumber Map.empty cubeSize2OneRow ''kodak''))
     = [(Num 1, Num 0, Num 0)]"
proof -
  have miss: "(Map.empty :: lutCache) ''kodak'' = None" by simp
  have "map (rowOf numeralNumber) (filter isDataLine (trimmedLines cubeSize2OneRow))
      = [(Num 1, Num 0, Num 0)]"
    by (simp add: trimmedLines_def cubeSize2OneRow_def trim_def isWs_def isDataLine_def
        startsWith_def splitWs_def rowOf_def numeralNumber_def isDigit_def digitsVal_def
        digitVal_def)
  then show ?thesis
    using parseCubeLUT_no_repair [OF miss, of numeralNumber cubeSize2OneRow] by simp
qed

text \<open>
  Claim C3 as first stated has a row count that misses \<open>N\<^sup>3\<close> by at most 20 repaired,
  and a larger mismatch rejected. A text declaring size 2 with one row (7 rows short of
  8) is returned with its one row; a text declaring size 3 with one row (26 rows short
  of 27) is returned as a table as well.
\<close>

theorem parseCubeLUT_repair_counterexample:
  "fst (parseCubeLUT numeralNumber Map.empty cubeSize2OneRow ''kodak'')
     = \<lparr>lut_size = Num 2, lut_data = [(Num 1, Num 0, Num 0)]\<rparr> \<and>
   fst (parseCubeLUT numeralNumber Map.empty cubeSize3OneRow ''kodak'')
     = \<lparr>lut_size = Num 3, lut_data = [(Num 1, Num 0, Num 0)]\<rparr>"
  by (simp add: parseCubeLUT_def parseText_cubeSize2OneRow parseText_cubeSize3OneRow Let_def)

text \<open>
  Claim C10: a table with at least one row is never read outside its rows, so the
  transform cannot fail. The text below has a size directive without a value and one row.
  Its table has the size \<^verbatim>\<open>NaN\<close> and one row, so it passes the caller's test
  \<^verbatim>\<open>lut.size === 0 || lut.data.length === 0\<close>; in the transform every result of the
  two clamps is \<^verbatim>\<open>NaN\<close>, the read \<^verbatim>\<open>lut.data[NaN]\<close> finds no row, and the call
  throws.
\<close>

theorem applyCubeLUT_nan_size_throws:
  "fst (parseCubeLUT numeralNumber Map.empty cubeNoSizeValue ''kodak'') = nanLut \<and>
   lut_size nanLut \<noteq> Num 0 \<and> length (lut_data nanLut) = 1 \<and>
   applyCubeLUT [0, 0, 0, 255] nanLut = Inl TypeError"
  by (simp add: parseCubeLUT_def parseText_cubeNoSizeValue Let_def)
    (simp add: nanLut_def applyCubeLUT_def lutIndex_def gridCoord_def arrayGet_def)

section \<open>The result cache\<close>





















section \<open>The write guard\<close>





section \<open>Disabling the pipeline\<close>








text \<open>
  An overlay is created with a shadow root of mode \<^verbatim>\<open>closed\<close>, whose \<^verbatim>\<open>shadowRoot\<close>
  property reads null; step 1 of \<^verbatim>\<open>revertElement\<close> then does not fire, and the
  wrapper stays in front of the hidden original.
\<close>

lemma revertElement_closed_overlay_stays:
  "selectedForRevert overlaidImage \<and>
   robustWrapper (revertElement plainEnv overlaidImage) = Some ClosedShadow \<and>
   hidden (revertElement plainEnv overlaidImage)"
  by (simp add: overlaidImage_def freshImage_def selectedForRevert_def revertElement_def
      revertOverlay_def revertImageSrc_def Let_def)

section \<open>The dispatch of a batch\<close>

lemma markProcessing_eq: "markProcessing el = el\<lparr>processingAttr := Some ''true''\<rparr>"
  by (simp add: markProcessing_def setAttribute_def nativeSetAttribute_def toLowerCase_def
      lowerChar_def)

lemma fresh_start:
  "url \<noteq> [] \<Longrightarrow> processElement_start plainEnv [] kodak (freshImage url)
     = AwaitLoad ((freshImage url)\<lparr>processingAttr := Some ''true''\<rparr>) url False"
  by (simp add: processElement_start_def processImage_start_def freshImage_def plainEnv_def
      srcProp_def kodak_def markProcessing_eq startsWith_def dataImagePrefix_def Let_def)

text \<open>
  Claim C5: at no point do more than \<^verbatim>\<open>MAX_CONCURRENT\<close> candidates carry the in-flight
  marker. With six visible images the first batch is all six; when \<^verbatim>\<open>batch.map\<close> has
  called \<^verbatim>\<open>processElement\<close> on them, each call is suspended in its load and each
  image carries the marker: six in flight, against a \<^verbatim>\<open>MAX_CONCURRENT\<close> of four.
\<close>

theorem batch_exceeds_max_concurrent:
  "length sixImages = 6 \<and> firstBatch CONFIG sixImages = sixImages \<and>
   inFlightCount (dispatchBatch plainEnv [] kodak (firstBatch CONFIG sixImages)) = 6 \<and>
   MAX_CONCURRENT CONFIG = 4"
  by (simp add: sixImages_def firstBatch_def CONFIG_def dispatchBatch_def inFlightCount_def
      fresh_start inFlight_def)

section \<open>Failures of a candidate\<close>




























end
